theory Spec2Isabelle
  imports Main
begin

section \<open>Configuration: \<open>WebConfig\<close> and \<open>ParseArgs\<close> (cmd/web/server.go, lines 34-63)\<close>

text \<open>
  \<open>WebConfig\<close> is the struct of server.go. \<open>LocalPort\<close> is a Go \<open>int\<close> (64 bits on the
  platforms the server is built for); no arithmetic is done on it, and every value that
  reaches it has passed the range check of \<open>strconv.ParseInt\<close>, so it is an \<open>int\<close> here.
\<close>

record WebConfig =
  LocalPort :: int
  UIDistPath :: string
  FrontEndServer :: string
  StartRestApi :: bool
  StartWebUI :: bool

text \<open>How a call ends: it returns, the process exits (\<open>os.Exit\<close>), or it panics.\<close>

datatype 'a outcome = Returned 'a | Exited int | Panicked string

subsection \<open>The standard library's \<open>strconv\<close>, as \<open>flag\<close> uses it\<close>

text \<open>
  \<open>ParseArgs\<close> hands the text of the \<open>port\<close> flag to \<open>strconv.ParseInt(s, 0, 64)\<close> and the
  text of the two boolean flags to \<open>strconv.ParseBool\<close>. Both are modelled after the Go
  standard library (strconv/atoi.go, strconv/atob.go). Bytes are compared by their codes.
\<close>

datatype NumError = ErrSyntax | ErrRange

definition code :: "char \<Rightarrow> nat" where
  "code c = of_char c"

definition lower :: "char \<Rightarrow> nat" where
  \<comment> \<open>\<open>c | ('x' - 'X')\<close>: sets bit 5 of the byte\<close>
  "lower c = (if (code c div 32) mod 2 = 0 then code c + 32 else code c)"

definition digit_val :: "char \<Rightarrow> nat option" where
  "digit_val c =
     (if 48 \<le> code c \<and> code c \<le> 57 then Some (code c - 48)
      else if 97 \<le> lower c \<and> lower c \<le> 122 then Some (lower c - 97 + 10)
      else None)"

definition maxUint64 :: nat where
  "maxUint64 = 2 ^ 64 - 1"

text \<open>
  The digit loop of \<open>ParseUint\<close> for bit size 64. \<open>n\<close> is a \<open>uint64\<close>: the product
  cannot wrap below the cutoff, the addition can, and the wrap is written out.
\<close>

fun ParseUint_loop :: "nat \<Rightarrow> bool \<Rightarrow> string \<Rightarrow> nat \<Rightarrow> NumError + nat" where
  "ParseUint_loop base base0 [] n = Inr n"
| "ParseUint_loop base base0 (c # cs) n =
     (if c = CHR ''_'' \<and> base0 then ParseUint_loop base base0 cs n
      else case digit_val c of
        None \<Rightarrow> Inl ErrSyntax
      | Some d \<Rightarrow>
          if d \<ge> base then Inl ErrSyntax
          else if n \<ge> maxUint64 div base + 1 then Inl ErrRange
          else let n' = n * base; n1 = (n' + d) mod 2 ^ 64
               in if n1 < n' \<or> n1 > maxUint64 then Inl ErrRange
                  else ParseUint_loop base base0 cs n1)"

text \<open>
  \<open>underscoreOK\<close>: the state \<open>saw\<close> is the last character class seen
  (\<open>^\<close> start, \<open>0\<close> digit or base prefix, \<open>_\<close> underscore, \<open>!\<close> anything else).
\<close>

datatype saw = SawStart | SawDigit | SawUnderscore | SawOther

fun underscoreOK_loop :: "bool \<Rightarrow> saw \<Rightarrow> string \<Rightarrow> bool" where
  "underscoreOK_loop hex sw [] = (sw \<noteq> SawUnderscore)"
| "underscoreOK_loop hex sw (c # cs) =
     (if (48 \<le> code c \<and> code c \<le> 57) \<or> (hex \<and> 97 \<le> lower c \<and> lower c \<le> 102)
      then underscoreOK_loop hex SawDigit cs
      else if c = CHR ''_'' then
        (if sw \<noteq> SawDigit then False else underscoreOK_loop hex SawUnderscore cs)
      else if sw = SawUnderscore then False
      else underscoreOK_loop hex SawOther cs)"

definition has_base_prefix :: "string \<Rightarrow> bool" where
  "has_base_prefix s =
     (case s of
        c0 # c1 # _ \<Rightarrow> c0 = CHR ''0'' \<and> (lower c1 = 98 \<or> lower c1 = 111 \<or> lower c1 = 120)
      | _ \<Rightarrow> False)"

definition underscoreOK :: "string \<Rightarrow> bool" where
  "underscoreOK s0 =
     (let s = (case s0 of c # cs \<Rightarrow> if c = CHR ''-'' \<or> c = CHR ''+'' then cs else s0 | [] \<Rightarrow> s0)
      in if has_base_prefix s
         then underscoreOK_loop (lower (s ! 1) = 120) SawDigit (drop 2 s)
         else underscoreOK_loop False SawStart s)"

text \<open>\<open>ParseUint(s, 0, 64)\<close>: base 0 picks the base from the prefix.\<close>

definition ParseUint :: "string \<Rightarrow> NumError + nat" where
  "ParseUint s0 =
     (case s0 of
        [] \<Rightarrow> Inl ErrSyntax
      | c0 # rest \<Rightarrow>
          let (base, s) =
                (if c0 = CHR ''0'' then
                   (if length s0 \<ge> 3 \<and> lower (s0 ! 1) = 98 then (2, drop 2 s0)
                    else if length s0 \<ge> 3 \<and> lower (s0 ! 1) = 111 then (8, drop 2 s0)
                    else if length s0 \<ge> 3 \<and> lower (s0 ! 1) = 120 then (16, drop 2 s0)
                    else (8, rest))
                 else (10, s0))
          in case ParseUint_loop base True s 0 of
               Inl e \<Rightarrow> Inl e
             | Inr n \<Rightarrow>
                 if CHR ''_'' \<in> set s \<and> \<not> underscoreOK s0 then Inl ErrSyntax else Inr n)"

text \<open>\<open>ParseInt(s, 0, 64)\<close>: sign, then \<open>ParseUint\<close>, then the signed range check.\<close>

definition ParseInt :: "string \<Rightarrow> NumError + int" where
  "ParseInt s0 =
     (case s0 of
        [] \<Rightarrow> Inl ErrSyntax
      | c # cs \<Rightarrow>
          let neg = (c = CHR ''-'');
              s = (if c = CHR ''+'' \<or> c = CHR ''-'' then cs else s0)
          in case ParseUint s of
               Inl ErrSyntax \<Rightarrow> Inl ErrSyntax
             | r \<Rightarrow>
                 let un = (case r of Inr n \<Rightarrow> n | Inl _ \<Rightarrow> maxUint64);
                     cutoff = (2::nat) ^ 63
                 in if \<not> neg \<and> un \<ge> cutoff then Inl ErrRange
                    else if neg \<and> un > cutoff then Inl ErrRange
                    else Inr (if neg then - int un else int un))"

definition ParseBool :: "string \<Rightarrow> bool option" where
  "ParseBool str =
     (if str \<in> set [''1'', ''t'', ''T'', ''TRUE'', ''true'', ''True''] then Some True
      else if str \<in> set [''0'', ''f'', ''F'', ''FALSE'', ''false'', ''False''] then Some False
      else None)"

text \<open>\<open>strconv.Itoa\<close>: decimal digits, with a minus sign for a negative number.\<close>

fun utoa :: "nat \<Rightarrow> string" where
  "utoa n = (if n < 10 then [char_of (48 + n)] else utoa (n div 10) @ [char_of (48 + n mod 10)])"

declare utoa.simps [simp del]

definition Itoa :: "int \<Rightarrow> string" where
  "Itoa i = (if i < 0 then CHR ''-'' # utoa (nat (- i)) else utoa (nat i))"

subsection \<open>The standard library's \<open>flag\<close> package\<close>

text \<open>
  \<open>ParseArgs\<close> works on the process-wide flag set \<open>flag.CommandLine\<close>, whose error
  handling is \<open>ExitOnError\<close>. A flag set holds the defined flags with their current
  values (\<open>formal\<close>) and whether \<open>Parse\<close> has been called (\<open>parsed\<close>). The pointer that
  \<open>flag.Int\<close>, \<open>flag.String\<close> and \<open>flag.Bool\<close> return is the flag's name here, and
  dereferencing it reads the current value. Text written to standard error (the usage
  message) is not part of the model.
\<close>

datatype Value = IntValue int | StringValue string | BoolValue bool

record FlagSet =
  formal :: "string \<rightharpoonup> Value"
  parsed :: bool

definition CommandLine :: FlagSet where
  \<comment> \<open>the flag set of a process in which no flag has been defined yet\<close>
  "CommandLine = \<lparr>formal = Map.empty, parsed = False\<rparr>"

definition Var :: "Value \<Rightarrow> string \<Rightarrow> FlagSet \<Rightarrow> FlagSet outcome" where
  "Var v name f =
     (if take 1 name = ''-'' then Panicked ''flag begins with -''
      else if CHR ''='' \<in> set name then Panicked ''flag contains =''
      else if formal f name \<noteq> None then Panicked (''flag redefined: '' @ name)
      else Returned (f\<lparr>formal := (formal f)(name \<mapsto> v)\<rparr>))"

definition Set_value :: "Value \<Rightarrow> string \<Rightarrow> Value option" where
  "Set_value v s =
     (case v of
        IntValue _ \<Rightarrow> (case ParseInt s of Inr i \<Rightarrow> Some (IntValue i) | Inl _ \<Rightarrow> None)
      | StringValue _ \<Rightarrow> Some (StringValue s)
      | BoolValue _ \<Rightarrow> (case ParseBool s of Some b \<Rightarrow> Some (BoolValue b) | None \<Rightarrow> None))"

fun IsBoolFlag :: "Value \<Rightarrow> bool" where
  "IsBoolFlag (BoolValue _) = True"
| "IsBoolFlag _ = False"

datatype flag_error = ErrHelp | ErrFail

text \<open>
  \<open>parseOne\<close>: the result is \<open>seen\<close> with the new flag set and the remaining
  arguments, or a stop without error, or an error.
\<close>

datatype parse_step = Seen FlagSet "string list" | Stop | Fail flag_error

fun cut_eq :: "string \<Rightarrow> string \<Rightarrow> string \<times> string option" where
  \<comment> \<open>the loop that looks for the first \<open>=\<close> from index 1 on; \<open>acc\<close> is the name so far\<close>
  "cut_eq acc [] = (acc, None)"
| "cut_eq acc (c # cs) = (if c = CHR ''='' then (acc, Some cs) else cut_eq (acc @ [c]) cs)"

definition parseOne :: "FlagSet \<Rightarrow> string list \<Rightarrow> parse_step" where
  "parseOne f args =
     (case args of
        [] \<Rightarrow> Stop
      | s # rest \<Rightarrow>
          if length s < 2 \<or> s ! 0 \<noteq> CHR ''-'' then Stop
          else if s ! 1 = CHR ''-'' \<and> length s = 2 then Stop
          else
            let name0 = drop (if s ! 1 = CHR ''-'' then 2 else 1) s
            in if name0 = [] \<or> hd name0 = CHR ''-'' \<or> hd name0 = CHR ''='' then Fail ErrFail
               else
                 let (name, value) = cut_eq [hd name0] (tl name0)
                 in case formal f name of
                      None \<Rightarrow> if name = ''help'' \<or> name = ''h'' then Fail ErrHelp else Fail ErrFail
                    | Some v \<Rightarrow>
                        if IsBoolFlag v then
                          (case Set_value v (case value of Some x \<Rightarrow> x | None \<Rightarrow> ''true'') of
                             None \<Rightarrow> Fail ErrFail
                           | Some v' \<Rightarrow> Seen (f\<lparr>formal := (formal f)(name \<mapsto> v')\<rparr>) rest)
                        else
                          (case (case value of
                                   Some x \<Rightarrow> Some (x, rest)
                                 | None \<Rightarrow> (case rest of [] \<Rightarrow> None | x # rest' \<Rightarrow> Some (x, rest'))) of
                             None \<Rightarrow> Fail ErrFail
                           | Some (x, rest') \<Rightarrow>
                               (case Set_value v x of
                                  None \<Rightarrow> Fail ErrFail
                                | Some v' \<Rightarrow> Seen (f\<lparr>formal := (formal f)(name \<mapsto> v')\<rparr>) rest')))"

lemma parseOne_shorter: "parseOne f args = Seen f' rest \<Longrightarrow> length rest < length args"
  by (auto simp: parseOne_def Let_def
           split: list.splits if_splits option.splits prod.splits)

text \<open>
  \<open>FlagSet.Parse\<close> under \<open>ExitOnError\<close>: \<open>parsed\<close> is set first, then \<open>parseOne\<close> runs
  until it stops; an error ends the process (status 0 for \<open>-help\<close>, 2 otherwise).
\<close>

function Parse_loop :: "FlagSet \<Rightarrow> string list \<Rightarrow> FlagSet outcome" where
  "Parse_loop f args =
     (case parseOne f args of
        Seen f' rest \<Rightarrow> Parse_loop f' rest
      | Stop \<Rightarrow> Returned f
      | Fail ErrHelp \<Rightarrow> Exited 0
      | Fail ErrFail \<Rightarrow> Exited 2)"
  by pat_completeness auto
termination
  by (relation "measure (\<lambda>(f, args). length args)") (auto dest: parseOne_shorter)

declare Parse_loop.simps [simp del]

definition Parse :: "FlagSet \<Rightarrow> string list \<Rightarrow> FlagSet outcome" where
  "Parse f arguments = Parse_loop (f\<lparr>parsed := True\<rparr>) arguments"

definition Parsed :: "FlagSet \<Rightarrow> bool" where
  "Parsed f = parsed f"

subsection \<open>\<open>ParseArgs\<close>\<close>

text \<open>Sequencing of calls that may exit or panic.\<close>

fun bind_outcome :: "'a outcome \<Rightarrow> ('a \<Rightarrow> 'b outcome) \<Rightarrow> 'b outcome" where
  "bind_outcome (Returned x) k = k x"
| "bind_outcome (Exited n) k = Exited n"
| "bind_outcome (Panicked m) k = Panicked m"

text \<open>Reading the variable behind the pointer a flag definition returned.\<close>

definition deref_int :: "FlagSet \<Rightarrow> string \<Rightarrow> int" where
  "deref_int f name = (case formal f name of Some (IntValue i) \<Rightarrow> i | _ \<Rightarrow> 0)"

definition deref_string :: "FlagSet \<Rightarrow> string \<Rightarrow> string" where
  "deref_string f name = (case formal f name of Some (StringValue s) \<Rightarrow> s | _ \<Rightarrow> [])"

definition deref_bool :: "FlagSet \<Rightarrow> string \<Rightarrow> bool" where
  "deref_bool f name = (case formal f name of Some (BoolValue b) \<Rightarrow> b | _ \<Rightarrow> False)"

text \<open>
  \<open>ParseArgs\<close>, run on the command line \<open>args\<close> (\<open>os.Args[1:]\<close>) in a process whose flag
  set is \<open>f0\<close> before the call: the five definitions, \<open>flag.Parse()\<close>, the check of
  \<open>flag.Parsed()\<close> and the struct built from the five variables.
\<close>

definition ParseArgs_from :: "FlagSet \<Rightarrow> string list \<Rightarrow> WebConfig outcome" where
  "ParseArgs_from f0 args =
     bind_outcome (Var (IntValue 8080) ''port'' f0) (\<lambda>f1.
     bind_outcome (Var (StringValue ''http://localhost:8001'') ''front_address'' f1) (\<lambda>f2.
     bind_outcome (Var (BoolValue True) ''start_restapi'' f2) (\<lambda>f3.
     bind_outcome (Var (BoolValue True) ''start_webui'' f3) (\<lambda>f4.
     bind_outcome (Var (StringValue []) ''webui_path'' f4) (\<lambda>f5.
     bind_outcome (Parse f5 args) (\<lambda>f.
       if \<not> Parsed f then Panicked ''Failed to parse flags''
       else Returned
         \<lparr>LocalPort = deref_int f ''port'',
          UIDistPath = deref_string f ''webui_path'',
          FrontEndServer = deref_string f ''front_address'',
          StartRestApi = deref_bool f ''start_restapi'',
          StartWebUI = deref_bool f ''start_webui''\<rparr>))))))"

definition ParseArgs :: "string list \<Rightarrow> WebConfig outcome" where
  "ParseArgs args = ParseArgs_from CommandLine args"

text \<open>The flag set after the five definitions of \<open>ParseArgs\<close>, in a fresh process.\<close>

definition defined_flags :: FlagSet where
  "defined_flags =
     \<lparr>formal = [''port'' \<mapsto> IntValue 8080,
                 ''front_address'' \<mapsto> StringValue ''http://localhost:8001'',
                 ''start_restapi'' \<mapsto> BoolValue True,
                 ''start_webui'' \<mapsto> BoolValue True,
                 ''webui_path'' \<mapsto> StringValue []],
      parsed = False\<rparr>"

(*ROUTER_DEFS*)

section \<open>Properties of \<open>ParseArgs\<close>\<close>

subsection \<open>Decimal text read back by \<open>ParseInt\<close>\<close>

lemma code_char_of: "d < 10 \<Longrightarrow> code (char_of (48 + d)) = 48 + d"
  by (simp add: code_def)

lemma digit_val_char_of: "d < 10 \<Longrightarrow> digit_val (char_of (48 + d)) = Some d"
  by (simp add: digit_val_def code_char_of)

lemma char_of_digit_neq:
  fixes d :: nat
  assumes "d < 10"
  shows "char_of (48 + d) \<noteq> CHR ''_''" "char_of (48 + d) \<noteq> CHR ''-''"
    "char_of (48 + d) \<noteq> CHR ''+''"
proof -
  have c: "code (char_of (48 + d)) = 48 + d" using assms by (rule code_char_of)
  have k: "code (CHR ''_'') = 95" "code (CHR ''-'') = 45" "code (CHR ''+'') = 43"
    by (simp_all add: code_def)
  show "char_of (48 + d) \<noteq> CHR ''_''" using c k(1) assms by auto
  show "char_of (48 + d) \<noteq> CHR ''-''" using c k(2) by auto
  show "char_of (48 + d) \<noteq> CHR ''+''" using c k(3) by auto
qed

lemma char_of_digit_zero:
  fixes d :: nat
  assumes "d < 10"
  shows "char_of (48 + d) = CHR ''0'' \<longleftrightarrow> d = 0"
proof
  assume "char_of (48 + d) = CHR ''0''"
  then have "code (char_of (48 + d)) = code (CHR ''0'')" by simp
  then show "d = 0" using assms by (simp add: code_char_of) (simp add: code_def)
next
  assume "d = 0" then show "char_of (48 + d) = CHR ''0''" by (simp add: char_of_eq_iff)
qed

lemma utoa_nonempty: "utoa n \<noteq> []"
  by (subst utoa.simps) simp

lemma utoa_no_mark: "CHR ''_'' \<notin> set (utoa n)"
proof (induction n rule: utoa.induct)
  case (1 n)
  show ?case
  proof (cases "n < 10")
    case True
    then show ?thesis using char_of_digit_neq(1) [of n] by (subst utoa.simps) auto
  next
    case False
    have "n mod 10 < 10" by simp
    then have "char_of (48 + n mod 10) \<noteq> CHR ''_''" by (rule char_of_digit_neq(1))
    then show ?thesis using False 1 by (subst utoa.simps) auto
  qed
qed

lemma utoa_hd: "hd (utoa n) \<noteq> CHR ''-'' \<and> hd (utoa n) \<noteq> CHR ''+'' \<and> (0 < n \<longrightarrow> hd (utoa n) \<noteq> CHR ''0'')"
proof (induction n rule: utoa.induct)
  case (1 n)
  show ?case
  proof (cases "n < 10")
    case True
    then show ?thesis
      using char_of_digit_neq(2,3) [of n] char_of_digit_zero [of n]
      by (subst (1 2 3) utoa.simps) auto
  next
    case False
    then have "0 < n div 10" by simp
    then show ?thesis using False 1 utoa_nonempty [of "n div 10"]
      by (subst (1 2 3) utoa.simps) (simp add: hd_append)
  qed
qed

lemma ParseUint_loop_append:
  "ParseUint_loop b b0 (xs @ ys) n =
     (case ParseUint_loop b b0 xs n of Inl e \<Rightarrow> Inl e | Inr n' \<Rightarrow> ParseUint_loop b b0 ys n')"
  by (induction xs arbitrary: n) (auto simp: Let_def split: option.splits)

lemma ParseUint_loop_digit:
  assumes "d < 10" "n * 10 + d < 2 ^ 64"
  shows "ParseUint_loop 10 True [char_of (48 + d)] n = Inr (n * 10 + d)"
proof -
  have "n < maxUint64 div 10 + 1" using assms by (simp add: maxUint64_def)
  then show ?thesis
    using assms char_of_digit_neq(1) [OF assms(1)]
    by (simp add: digit_val_char_of Let_def maxUint64_def)
qed

lemma ParseUint_loop_utoa:
  "n * 10 ^ length (utoa m) + m < 2 ^ 64 \<Longrightarrow>
   ParseUint_loop 10 True (utoa m) n = Inr (n * 10 ^ length (utoa m) + m)"
proof (induction m arbitrary: n rule: utoa.induct)
  case (1 m)
  show ?case
  proof (cases "m < 10")
    case True
    then have u: "utoa m = [char_of (48 + m)]" by (subst utoa.simps) simp
    show ?thesis using True 1(2) by (simp add: u ParseUint_loop_digit del: ParseUint_loop.simps)
  next
    case False
    let ?q = "m div 10" and ?r = "m mod 10"
    have u: "utoa m = utoa ?q @ [char_of (48 + ?r)]" using False by (subst utoa.simps) simp
    have eq: "(n * 10 ^ length (utoa ?q) + ?q) * 10 + ?r = n * 10 ^ length (utoa m) + m"
      by (simp add: u algebra_simps)
    have bound: "(n * 10 ^ length (utoa ?q) + ?q) * 10 + ?r < 2 ^ 64"
      using 1(2) by (simp only: eq)
    moreover have "n * 10 ^ length (utoa ?q) + ?q \<le> (n * 10 ^ length (utoa ?q) + ?q) * 10 + ?r"
      by simp
    ultimately have "n * 10 ^ length (utoa ?q) + ?q < 2 ^ 64" by (rule le_less_trans [rotated])
    then have ih: "ParseUint_loop 10 True (utoa ?q) n = Inr (n * 10 ^ length (utoa ?q) + ?q)"
      using 1(1) False by simp
    have "ParseUint_loop 10 True (utoa m) n
          = ParseUint_loop 10 True [char_of (48 + ?r)] (n * 10 ^ length (utoa ?q) + ?q)"
      by (simp add: u ParseUint_loop_append ih)
    also have "\<dots> = Inr ((n * 10 ^ length (utoa ?q) + ?q) * 10 + ?r)"
      using bound by (intro ParseUint_loop_digit) simp_all
    finally show ?thesis by (simp only: eq)
  qed
qed

lemma ParseUint_decimal:
  "s \<noteq> [] \<Longrightarrow> hd s \<noteq> CHR ''0'' \<Longrightarrow> CHR ''_'' \<notin> set s \<Longrightarrow>
   ParseUint s = ParseUint_loop 10 True s 0"
  by (cases s) (auto simp: ParseUint_def split: sum.splits)

lemma ParseUint_utoa: "m < 2 ^ 64 \<Longrightarrow> ParseUint (utoa m) = Inr m"
proof (cases "m = 0")
  case True
  have "utoa 0 = ''0''" by (subst utoa.simps) (simp add: char_of_eq_iff)
  then show ?thesis using True by (simp add: ParseUint_def)
next
  case False
  assume m: "m < 2 ^ 64"
  have "ParseUint (utoa m) = ParseUint_loop 10 True (utoa m) 0"
    using False utoa_hd [of m] by (intro ParseUint_decimal utoa_nonempty utoa_no_mark) simp
  also have "\<dots> = Inr m"
    using ParseUint_loop_utoa [of 0 m] m by simp
  finally show ?thesis .
qed

lemma ParseInt_Itoa:
  assumes "- (2 ^ 63) \<le> i" "i < 2 ^ 63"
  shows "ParseInt (Itoa i) = Inr i"
proof (cases "i < 0")
  case True
  let ?m = "nat (- i)"
  have m: "?m \<le> 2 ^ 63" using assms True by (simp add: nat_le_iff)
  then have "?m < 2 ^ 64" by simp
  then have "ParseUint (utoa ?m) = Inr ?m" by (rule ParseUint_utoa)
  then show ?thesis using True m by (simp add: ParseInt_def Itoa_def)
next
  case False
  let ?m = "nat i"
  have m: "?m < 2 ^ 63" using assms False by (simp add: nat_less_iff)
  then have "?m < 2 ^ 64" by simp
  then have p: "ParseUint (utoa ?m) = Inr ?m" by (rule ParseUint_utoa)
  obtain c cs where s: "utoa ?m = c # cs" using utoa_nonempty [of ?m] by (cases "utoa ?m") auto
  have c: "c \<noteq> CHR ''-''" "c \<noteq> CHR ''+''" using utoa_hd [of ?m] s by simp_all
  show ?thesis using False m p c by (simp add: ParseInt_def Itoa_def s)
qed

subsection \<open>The flag parser\<close>





lemma ParseArgs_unfold:
  "ParseArgs args =
     bind_outcome (Parse defined_flags args) (\<lambda>f.
       if \<not> Parsed f then Panicked ''Failed to parse flags''
       else Returned
         \<lparr>LocalPort = deref_int f ''port'',
          UIDistPath = deref_string f ''webui_path'',
          FrontEndServer = deref_string f ''front_address'',
          StartRestApi = deref_bool f ''start_restapi'',
          StartWebUI = deref_bool f ''start_webui''\<rparr>)"
  by (simp add: ParseArgs_def ParseArgs_from_def CommandLine_def Var_def defined_flags_def)

lemma ParseArgs_port:
  "ParseArgs [''-port='' @ s] =
     (case ParseInt s of
        Inl e \<Rightarrow> Exited 2
      | Inr i \<Rightarrow> Returned \<lparr>LocalPort = i, UIDistPath = [], FrontEndServer = ''http://localhost:8001'',
                   StartRestApi = True, StartWebUI = True\<rparr>)"
  by (simp add: ParseArgs_unfold defined_flags_def Parse_def Parse_loop.simps parseOne_def
        Set_value_def Parsed_def deref_int_def deref_string_def deref_bool_def
        split: sum.splits)



subsection \<open>Claims about \<open>ParseArgs\<close>\<close>

text \<open>
  Claim C6. Run with no flags on the command line, \<open>ParseArgs\<close> returns the defaults
  written in its flag definitions: port 8080, front address \<open>http://localhost:8001\<close>,
  REST API and Web UI both enabled, and the empty Web UI path.
\<close>

theorem ParseArgs_defaults:
  "ParseArgs [] =
     Returned \<lparr>LocalPort = 8080, UIDistPath = [], FrontEndServer = ''http://localhost:8001'',
               StartRestApi = True, StartWebUI = True\<rparr>"
  by (simp add: ParseArgs_unfold defined_flags_def Parse_def Parse_loop.simps parseOne_def
        Parsed_def deref_int_def deref_string_def deref_bool_def)

text \<open>
  Claim C5, as amended. For every port \<open>p\<close> with \<open>0 < p < 65536\<close>, \<open>ParseArgs\<close> run with
  \<open>-port=p\<close> (the decimal text of \<open>p\<close>) returns a \<open>WebConfig\<close> whose \<open>LocalPort\<close> is \<open>p\<close>
  and whose other fields are the defaults. More generally the text after \<open>-port=\<close> is
  handed to \<open>ParseInt\<close>: every integer it accepts, zero and negative ones included, is
  returned as \<open>LocalPort\<close> unchanged, and a text it rejects ends the process with
  status 2. There is no check that the port is positive.
\<close>

theorem ParseArgs_port_flag:
  "(0 < p \<and> p < 65536 \<longrightarrow>
      ParseArgs [''-port='' @ Itoa p] =
        Returned \<lparr>LocalPort = p, UIDistPath = [], FrontEndServer = ''http://localhost:8001'',
                  StartRestApi = True, StartWebUI = True\<rparr>) \<and>
   (\<forall>i. ParseInt s = Inr i \<longrightarrow>
      ParseArgs [''-port='' @ s] =
        Returned \<lparr>LocalPort = i, UIDistPath = [], FrontEndServer = ''http://localhost:8001'',
                  StartRestApi = True, StartWebUI = True\<rparr>) \<and>
   (\<forall>e. ParseInt s = Inl e \<longrightarrow> ParseArgs [''-port='' @ s] = Exited 2)"
proof (intro conjI impI allI)
  assume "0 < p \<and> p < 65536"
  then have "ParseInt (Itoa p) = Inr p" by (intro ParseInt_Itoa) simp_all
  then show "ParseArgs [''-port='' @ Itoa p] =
        Returned \<lparr>LocalPort = p, UIDistPath = [], FrontEndServer = ''http://localhost:8001'',
                  StartRestApi = True, StartWebUI = True\<rparr>"
    using ParseArgs_port [of "Itoa p"] by simp
next
  fix i assume "ParseInt s = Inr i"
  then show "ParseArgs [''-port='' @ s] =
        Returned \<lparr>LocalPort = i, UIDistPath = [], FrontEndServer = ''http://localhost:8001'',
                  StartRestApi = True, StartWebUI = True\<rparr>"
    using ParseArgs_port [of s] by simp
next
  fix e assume "ParseInt s = Inl e"
  then show "ParseArgs [''-port='' @ s] = Exited 2"
    using ParseArgs_port [of s] by simp
qed

lemma Itoa_8081: "Itoa 8081 = ''8081''"
  by (simp add: Itoa_def utoa.simps char_of_eq_iff)

lemma ParseInt_abc: "ParseInt ''abc'' = Inl ErrSyntax"
  by (simp add: ParseInt_def ParseUint_def digit_val_def code_def lower_def maxUint64_def Let_def)

lemma ParseInt_0: "ParseInt ''0'' = Inr 0"
  by (simp add: ParseInt_def ParseUint_def digit_val_def code_def lower_def maxUint64_def Let_def)

theorem ParseArgs_port_flag_witness:
  "(0::int) < 8081 \<and> (8081::int) < 65536 \<and>
   ParseArgs [''-port=8081''] =
     Returned \<lparr>LocalPort = 8081, UIDistPath = [], FrontEndServer = ''http://localhost:8001'',
               StartRestApi = True, StartWebUI = True\<rparr> \<and>
   ParseInt ''0'' = Inr 0 \<and>
   ParseArgs [''-port=0''] =
     Returned \<lparr>LocalPort = 0, UIDistPath = [], FrontEndServer = ''http://localhost:8001'',
               StartRestApi = True, StartWebUI = True\<rparr> \<and>
   ParseInt ''abc'' = Inl ErrSyntax \<and>
   ParseArgs [''-port=abc''] = Exited 2"
  using ParseArgs_port_flag [of 8081 "''0''"] ParseArgs_port_flag [of 8081 "''abc''"]
  by (simp add: Itoa_8081 ParseInt_abc ParseInt_0)

text \<open>
  The claim as stated fails: \<open>-1\<close> is not a positive integer, and \<open>ParseArgs\<close> run with
  \<open>-port=-1\<close> does not end the process but returns a configuration with port \<open>-1\<close>.
\<close>

theorem ParseArgs_negative_port_counterexample:
  "ParseArgs [''-port=-1''] = Returned \<lparr>LocalPort = - 1, UIDistPath = [], FrontEndServer = ''http://localhost:8001'',
                   StartRestApi = True, StartWebUI = True\<rparr>"
  using ParseArgs_port [of "''-1''"]
  by (simp add: ParseInt_def ParseUint_def digit_val_def code_def lower_def maxUint64_def Let_def)



end
